theory Spec2Isabelle
  imports Complex_Main "HOL-Library.Multiset" "HOL-Library.Sublist"
begin

section \<open>The observable store (createState, main.js lines 2-16)\<close>

text \<open>
  \<^verbatim>\<open>createState\<close> closes over a value \<^verbatim>\<open>state\<close> and an array \<^verbatim>\<open>listeners\<close>. The closure is
  modelled as a record of the two. A listener is a JavaScript function; the store only ever
  pushes it and calls it, so the model is polymorphic in what stands for one.
  \<^verbatim>\<open>setState\<close> assigns the value and then calls every listener in array order: the model
  returns the updated store together with the sequence of listener calls the
  \<^verbatim>\<open>forEach\<close> makes, which the caller runs against the whole program state.
\<close>

record ('a, 'l) store =
  state :: 'a
  listeners :: "'l list"

definition createState :: "'a \<Rightarrow> ('a, 'l) store" where
  "createState initialState = \<lparr>state = initialState, listeners = []\<rparr>"

definition getState :: "('a, 'l) store \<Rightarrow> 'a" where
  "getState s = state s"

definition setState :: "'a \<Rightarrow> ('a, 'l) store \<Rightarrow> ('a, 'l) store \<times> 'l list" where
  "setState newState s = (s\<lparr>state := newState\<rparr>, listeners s)"

definition subscribe :: "'l \<Rightarrow> ('a, 'l) store \<Rightarrow> ('a, 'l) store" where
  "subscribe listener s = s\<lparr>listeners := listeners s @ [listener]\<rparr>"


section \<open>Products and the catalog endpoint\<close>

text \<open>
  A product is one record of the endpoint's JSON array. Only the fields the program reads
  are kept. JavaScript numbers are IEEE doubles; every finite double is a rational, and
  on finite doubles the sign of \<^verbatim>\<open>a.price - b.price\<close> is the sign of the exact difference, so
  prices are modelled as rationals: a price is the exact value of its double. JavaScript
  strings are sequences of code units; the strings of this model are the sequences of code
  units below 256 (Basic Latin and Latin-1), one \<^typ>\<open>char\<close> each.
\<close>

record product =
  product_id :: nat
  title :: string
  price :: rat
  category :: string
  image_url :: string

text \<open>
  \<^verbatim>\<open>String.prototype.toLowerCase\<close>. On code units below 256 it acts unit by unit: the
  letters A-Z (65-90) and the Latin-1 capitals U+00C0 to U+00DE (192-222) other than the
  multiplication sign U+00D7 (215) move up by 32 to their small letters, and every other
  unit is kept (the sharp s U+00DF, the micro sign U+00B5 and U+00FF are small already).
\<close>

definition toLowerCase_char :: "char \<Rightarrow> char" where
  "toLowerCase_char c =
     (let n = (of_char c :: nat)
      in if (65 \<le> n \<and> n \<le> 90) \<or> (192 \<le> n \<and> n \<le> 222 \<and> n \<noteq> 215)
         then char_of (n + 32) else c)"

definition toLowerCase :: "string \<Rightarrow> string" where
  "toLowerCase s = map toLowerCase_char s"

text \<open>
  \<^verbatim>\<open>Array.prototype.sort(comparefn)\<close>. Since ECMAScript 2019 the sort is stable, and for a
  consistent comparator its result is the one stable ordering: each element goes behind
  exactly the elements it compares greater than (\<^verbatim>\<open>comparefn(x, y) > 0\<close>). The model is the
  insertion sort that computes this ordering.
\<close>

fun insert_sorted :: "('a \<Rightarrow> 'a \<Rightarrow> 'n::{zero,ord}) \<Rightarrow> 'a \<Rightarrow> 'a list \<Rightarrow> 'a list" where
  "insert_sorted comparefn x [] = [x]"
| "insert_sorted comparefn x (y # ys) =
     (if comparefn x y > 0 then y # insert_sorted comparefn x ys else x # y # ys)"

definition array_sort :: "('a \<Rightarrow> 'a \<Rightarrow> 'n::{zero,ord}) \<Rightarrow> 'a list \<Rightarrow> 'a list" where
  "array_sort comparefn xs = foldr (insert_sorted comparefn) xs []"

text \<open>
  What \<^verbatim>\<open>await fetch(url)\<close> followed by \<^verbatim>\<open>await response.json()\<close> can produce.
  \<^verbatim>\<open>fetch\<close> rejects only when no response arrives (a network error); any HTTP response,
  whatever its status, resolves it. \<^verbatim>\<open>response.json()\<close> rejects when the body is not JSON.
  A body that is JSON is either an array, taken to hold product records (the endpoint's
  format), or a value that is not an array: an object such as the \<^verbatim>\<open>{"message": ...}\<close> of an
  error page, a number, a boolean or \<^verbatim>\<open>null\<close>. Such a value has none of the array methods
  \<^verbatim>\<open>filter\<close>, \<^verbatim>\<open>sort\<close> and \<^verbatim>\<open>slice\<close>, and calling one raises a TypeError.
\<close>

datatype json_body = NotJson | NonArray | ProductArray "product list"

record response =
  status :: nat
  body :: json_body


datatype fetch_result = NetworkFailure | Response response

datatype error = FetchRejected | JsonSyntaxError | TypeError

text \<open>
  What \<^verbatim>\<open>data\<close> and \<^verbatim>\<open>filteredProducts\<close> hold, and so what \<^verbatim>\<open>fetchProducts\<close> resolves to and
  the product store is given: an array of products, or the non-array body itself.
\<close>

datatype fetched = Products "product list" | NonArrayBody

text \<open>
  The part of the JavaScript runtime the program calls and this theory does not define:
  the locale's collation behind \<^verbatim>\<open>String.prototype.localeCompare\<close>, and the
  Number-to-String conversion that \<^verbatim>\<open>toFixed\<close> falls back to for magnitudes of at least
  \<open>10\<^sup>2\<^sup>1\<close>.
\<close>

record runtime =
  localeCompare :: "string \<Rightarrow> string \<Rightarrow> int"
  numberToString :: "rat \<Rightarrow> string"

text \<open>
  \<^verbatim>\<open>fetchProducts\<close> (lines 27-49). The outcome of the network request is an argument. The
  default arguments of the source are \<open>[]\<close> and \<open>''price''\<close>; callers pass them explicitly.
\<close>

definition matches_filters :: "string list \<Rightarrow> product \<Rightarrow> bool" where
  "matches_filters filters product =
     list_ex (\<lambda>f. toLowerCase (category product) = toLowerCase f) filters"

definition fetchProducts ::
  "runtime \<Rightarrow> fetch_result \<Rightarrow> string list \<Rightarrow> string \<Rightarrow> error + fetched" where
  "fetchProducts rt result filters sortKey =
     (case result of
        NetworkFailure \<Rightarrow> Inl FetchRejected
      | Response response \<Rightarrow>
          (case body response of
             NotJson \<Rightarrow> Inl JsonSyntaxError
           | NonArray \<Rightarrow>
               (if length filters > 0 then Inl TypeError
                else if sortKey = ''price'' then Inl TypeError
                else if sortKey = ''name'' then Inl TypeError
                else Inr NonArrayBody)
           | ProductArray data \<Rightarrow>
               (let filteredProducts =
                      (if length filters > 0 then filter (matches_filters filters) data
                       else data)
                in Inr (Products
                     (if sortKey = ''price''
                        then array_sort (\<lambda>a b. price a - price b) filteredProducts
                      else if sortKey = ''name''
                        then array_sort (\<lambda>a b. localeCompare rt (title a) (title b))
                               filteredProducts
                      else filteredProducts)))))"

section \<open>Module state, the document and the renderer\<close>

text \<open>
  The four module-level stores (lines 19-22) and \<^verbatim>\<open>currentPage\<close> (line 24) form the program
  state, together with the parts of the document the program reads and writes: the
  checked state and value of each filter checkbox, the value of the sort selector, the text
  of the results counter, the content of the product container and the display style of the
  load-more button. The elements the program looks up are taken to exist. The only
  function ever subscribed to a store is \<^verbatim>\<open>renderProducts\<close>.
  The field \<open>writes\<close> is the history of \<^verbatim>\<open>setState\<close> calls: which store was written and
  which listeners its \<^verbatim>\<open>forEach\<close> called, oldest first.
\<close>

datatype listener = RenderProducts

datatype store_name = ProductsState | VisibleProductsState | FiltersState | IsLoading

record document =
  filter_checkboxes :: "(bool \<times> string) list"
  sort_dropdown_value :: string
  results_count_textContent :: string
  products_innerHTML :: string
  load_more_display :: string

record world =
  productsState :: "(fetched, listener) store"
  visibleProductsState :: "(product list, listener) store"
  filtersState :: "(string list, listener) store"
  isLoading :: "(bool, listener) store"
  currentPage :: nat
  document :: document
  writes :: "(store_name \<times> listener list) list"

definition module_state :: "document \<Rightarrow> world" where
  "module_state doc =
     \<lparr>productsState = createState (Products []), visibleProductsState = createState [],
      filtersState = createState [], isLoading = createState False,
      currentPage = 0, document = doc, writes = []\<rparr>"

text \<open>Decimal digits of a natural number, as template literals and \<^verbatim>\<open>toFixed\<close> print them.\<close>

definition digit :: "nat \<Rightarrow> char" where
  "digit d = char_of (48 + d)"

fun decimal :: "nat \<Rightarrow> string" where
  "decimal n = (if n < 10 then [digit n] else decimal (n div 10) @ [digit (n mod 10)])"

declare decimal.simps [simp del]

text \<open>
  \<^verbatim>\<open>Number.prototype.toFixed(fractionDigits)\<close> as ECMAScript defines it: a sign, then, below
  \<open>10\<^sup>2\<^sup>1\<close>, the integer \<open>n\<close> nearest to \<open>x * 10\<^sup>f\<close> (the larger one on a tie), printed with
  a point before its last \<open>f\<close> digits and padded with zeros to at least \<open>f + 1\<close> digits.
\<close>

definition toFixed :: "runtime \<Rightarrow> nat \<Rightarrow> rat \<Rightarrow> string" where
  "toFixed rt f x0 =
     (let s = (if x0 < 0 then ''-'' else []);
          x = (if x0 < 0 then - x0 else x0)
      in if x \<ge> 10 ^ 21 then s @ numberToString rt x
         else
           (let n = nat \<lfloor>x * 10 ^ f + 1 / 2\<rfloor>;
                m0 = decimal n;
                m = (if f \<noteq> 0
                     then (let m1 = (if length m0 \<le> f
                                     then replicate (f + 1 - length m0) (CHR ''0'') @ m0
                                     else m0);
                               k = length m1
                           in take (k - f) m1 @ ''.'' @ drop (k - f) m1)
                     else m0)
            in s @ m))"

text \<open>
  The template literal of lines 66-81, with its line breaks and indentation, as a function
  of the values it interpolates: \<^verbatim>\<open>product.image\<close>, \<^verbatim>\<open>product.title\<close> (twice) and
  \<^verbatim>\<open>product.price.toFixed(2)\<close>. The wishlist glyph U+2661 is written as its three UTF-8 bytes.
\<close>

definition wishlist_icon :: string where
  \<open>wishlist_icon = ''<span class="wishlist-icon">'' @ [CHR 0xE2, CHR 0x99, CHR 0xA1] @ ''</span>''\<close>

definition card_template :: "string \<Rightarrow> string \<Rightarrow> string \<Rightarrow> string" where
  \<open>card_template image_text title_text price_text = concat
     [[CHR 0x0A], ''        <div class="product-card">'',
      [CHR 0x0A], ''          <div class="card-image-container">'',
      [CHR 0x0A], ''            <img src="'', image_text, ''" alt="'', title_text,
                  ''" class="card-image">'',
      [CHR 0x0A], ''          </div>'',
      [CHR 0x0A], ''          <div class="card-body">'',
      [CHR 0x0A], ''           <h3 class="card-title">'', title_text, ''</h3>'',
      [CHR 0x0A], ''            <p class="card-price">$'', price_text, ''</p>'',
      [CHR 0x0A], ''          </div>'',
      [CHR 0x0A], ''          <div class="card-footer">'',
      [CHR 0x0A], ''            '', wishlist_icon,
      [CHR 0x0A], ''        </div>'',
      [CHR 0x0A], ''        </div>'',
      [CHR 0x0A], ''      '']\<close>

definition product_card :: "runtime \<Rightarrow> product \<Rightarrow> string" where
  "product_card rt product =
     card_template (image_url product) (title product) (toFixed rt 2 (price product))"

text \<open>\<^verbatim>\<open>renderProducts\<close> (lines 52-84): the counter is written first, then the container.\<close>

definition renderProducts :: "runtime \<Rightarrow> world \<Rightarrow> world" where
  "renderProducts rt w =
     (let visibleProducts = getState (visibleProductsState w);
          w1 = w\<lparr>document := (document w)
                 \<lparr>results_count_textContent := decimal (length visibleProducts) @ '' Results''\<rparr>\<rparr>
      in if getState (isLoading w1) = True
         then w1\<lparr>document := (document w1)\<lparr>products_innerHTML := ''Loading...''\<rparr>\<rparr>
         else w1\<lparr>document := (document w1)
                \<lparr>products_innerHTML := concat (map (product_card rt) visibleProducts)\<rparr>\<rparr>)"

fun call_listener :: "runtime \<Rightarrow> listener \<Rightarrow> world \<Rightarrow> world" where
  "call_listener rt RenderProducts w = renderProducts rt w"

text \<open>
  \<^verbatim>\<open>setState\<close> on each of the four stores: the assignment, then the listener calls run on
  the program state.
\<close>

definition productsState_setState :: "runtime \<Rightarrow> fetched \<Rightarrow> world \<Rightarrow> world" where
  "productsState_setState rt newState w =
     (case setState newState (productsState w) of
        (s, calls) \<Rightarrow>
          fold (call_listener rt) calls
            (w\<lparr>productsState := s, writes := writes w @ [(ProductsState, calls)]\<rparr>))"

definition visibleProductsState_setState :: "runtime \<Rightarrow> product list \<Rightarrow> world \<Rightarrow> world" where
  "visibleProductsState_setState rt newState w =
     (case setState newState (visibleProductsState w) of
        (s, calls) \<Rightarrow>
          fold (call_listener rt) calls
            (w\<lparr>visibleProductsState := s, writes := writes w @ [(VisibleProductsState, calls)]\<rparr>))"

definition filtersState_setState :: "runtime \<Rightarrow> string list \<Rightarrow> world \<Rightarrow> world" where
  "filtersState_setState rt newState w =
     (case setState newState (filtersState w) of
        (s, calls) \<Rightarrow>
          fold (call_listener rt) calls
            (w\<lparr>filtersState := s, writes := writes w @ [(FiltersState, calls)]\<rparr>))"

definition isLoading_setState :: "runtime \<Rightarrow> bool \<Rightarrow> world \<Rightarrow> world" where
  "isLoading_setState rt newState w =
     (case setState newState (isLoading w) of
        (s, calls) \<Rightarrow>
          fold (call_listener rt) calls
            (w\<lparr>isLoading := s, writes := writes w @ [(IsLoading, calls)]\<rparr>))"


section \<open>Pagination and the interaction handlers\<close>

text \<open>\<^verbatim>\<open>Array.prototype.slice(start, end)\<close> for non-negative indices: both are clamped to the length.\<close>

definition slice :: "nat \<Rightarrow> nat \<Rightarrow> 'a list \<Rightarrow> 'a list" where
  "slice start stop xs = take (stop - start) (drop start xs)"

text \<open>
  \<^verbatim>\<open>value.slice(start, end)\<close> on what the product store holds: the slice of an array, a
  TypeError on a value that is not one.
\<close>

definition slice_fetched :: "nat \<Rightarrow> nat \<Rightarrow> fetched \<Rightarrow> error + product list" where
  "slice_fetched start stop v =
     (case v of Products xs \<Rightarrow> Inr (slice start stop xs) | NonArrayBody \<Rightarrow> Inl TypeError)"

definition set_load_more_display :: "string \<Rightarrow> world \<Rightarrow> world" where
  "set_load_more_display v w = w\<lparr>document := (document w)\<lparr>load_more_display := v\<rparr>\<rparr>"

text \<open>
  \<^verbatim>\<open>loadMoreProducts\<close> (lines 87-101). When the product store holds no array,
  \<^verbatim>\<open>allProducts.slice\<close> throws before anything is changed.
\<close>

definition loadMoreProducts :: "runtime \<Rightarrow> world \<Rightarrow> error + world" where
  "loadMoreProducts rt w =
     (let allProducts = getState (productsState w);
          visibleProducts = getState (visibleProductsState w)
      in case allProducts of
           NonArrayBody \<Rightarrow> Inl TypeError
         | Products xs \<Rightarrow>
             (let nextProducts = slice (length visibleProducts) (length visibleProducts + 10) xs;
                  w1 = visibleProductsState_setState rt (visibleProducts @ nextProducts) w
              in if length (getState (visibleProductsState w1)) \<ge> length xs
                 then Inr (set_load_more_display ''none'' w1)
                 else Inr w1))"

text \<open>\<open>n\<close> clicks on the load-more button, one after the other; a click that throws ends the run.\<close>

fun loadMoreProducts_times :: "runtime \<Rightarrow> nat \<Rightarrow> world \<Rightarrow> error + world" where
  "loadMoreProducts_times rt 0 w = Inr w"
| "loadMoreProducts_times rt (Suc n) w =
     (case loadMoreProducts rt w of
        Inl e \<Rightarrow> Inl e
      | Inr w' \<Rightarrow> loadMoreProducts_times rt n w')"

text \<open>
  The three asynchronous sequences. Each takes the outcome of its one network request as an
  argument and runs from its first statement to its last with no other handler in between.
  A sequence ends fulfilled, or rejected with the error of the failed \<^verbatim>\<open>await\<close> or of the
  statement that threw; the program state it leaves behind is part of both results.
\<close>

datatype completion = Fulfilled world | Rejected error world

fun world_of :: "completion \<Rightarrow> world" where
  "world_of (Fulfilled w) = w"
| "world_of (Rejected e w) = w"

text \<open>\<^verbatim>\<open>handleFilterChange\<close> (lines 104-125).\<close>

definition handleFilterChange :: "runtime \<Rightarrow> fetch_result \<Rightarrow> world \<Rightarrow> completion" where
  "handleFilterChange rt result w0 =
     (let w1 = isLoading_setState rt True w0;
          checkboxes = filter_checkboxes (document w1);
          selectedFilters = map snd (filter fst checkboxes);
          w2 = filtersState_setState rt selectedFilters w1;
          sortedBy = sort_dropdown_value (document w2)
      in case fetchProducts rt result (getState (filtersState w2)) sortedBy of
           Inl e \<Rightarrow> Rejected e w2
         | Inr updatedProducts \<Rightarrow>
             (let w3 = productsState_setState rt updatedProducts w2;
                  w4 = isLoading_setState rt False w3
              in case slice_fetched 0 10 updatedProducts of
                   Inl e \<Rightarrow> Rejected e w4
                 | Inr firstPage \<Rightarrow>
                     (let w5 = visibleProductsState_setState rt firstPage w4
                      in Fulfilled (set_load_more_display ''block'' w5))))"

text \<open>\<^verbatim>\<open>handleSortChange\<close> (lines 128-140).\<close>

definition handleSortChange :: "runtime \<Rightarrow> fetch_result \<Rightarrow> world \<Rightarrow> completion" where
  "handleSortChange rt result w0 =
     (let sortedBy = sort_dropdown_value (document w0)
      in case fetchProducts rt result (getState (filtersState w0)) sortedBy of
           Inl e \<Rightarrow> Rejected e w0
         | Inr updatedProducts \<Rightarrow>
             (let w1 = productsState_setState rt updatedProducts w0
              in case slice_fetched 0 10 updatedProducts of
                   Inl e \<Rightarrow> Rejected e w1
                 | Inr firstPage \<Rightarrow>
                     (let w2 = visibleProductsState_setState rt firstPage w1
                      in Fulfilled (set_load_more_display ''block'' w2))))"

text \<open>
  \<^verbatim>\<open>init\<close> (lines 143-171). The \<^verbatim>\<open>addEventListener\<close> calls that end it register the three
  handlers above with the document and change nothing of the program state.
\<close>

definition init :: "runtime \<Rightarrow> fetch_result \<Rightarrow> world \<Rightarrow> completion" where
  "init rt result w0 =
     (let w1 = w0\<lparr>visibleProductsState := subscribe RenderProducts (visibleProductsState w0)\<rparr>;
          w2 = w1\<lparr>isLoading := subscribe RenderProducts (isLoading w1)\<rparr>;
          w3 = isLoading_setState rt True w2
      in case fetchProducts rt result [] ''price'' of
           Inl e \<Rightarrow> Rejected e w3
         | Inr initialProducts \<Rightarrow>
             (let w4 = productsState_setState rt initialProducts w3
              in case slice_fetched 0 10 initialProducts of
                   Inl e \<Rightarrow> Rejected e w4
                 | Inr firstPage \<Rightarrow>
                     (let w5 = visibleProductsState_setState rt firstPage w4;
                          w6 = isLoading_setState rt False w5
                      in Fulfilled w6)))"

section \<open>Vocabulary of the properties\<close>

text \<open>
  Equality of two strings up to the case of their letters, said without any conversion: the
  strings have the same length, and at each position the two code units are the same, or
  one is a capital letter (A-Z, or a Latin-1 capital U+00C0 to U+00DE other than U+00D7) and
  the other is its small letter, 32 code units above.
\<close>

definition capital :: "char \<Rightarrow> bool" where
  "capital c =
     ((65 \<le> (of_char c :: nat) \<and> (of_char c :: nat) \<le> 90) \<or>
      (192 \<le> (of_char c :: nat) \<and> (of_char c :: nat) \<le> 222 \<and> (of_char c :: nat) \<noteq> 215))"

definition same_letter :: "char \<Rightarrow> char \<Rightarrow> bool" where
  "same_letter c d =
     (c = d \<or>
      (capital c \<and> (of_char d :: nat) = of_char c + 32) \<or>
      (capital d \<and> (of_char c :: nat) = of_char d + 32))"

definition equal_ignoring_case :: "string \<Rightarrow> string \<Rightarrow> bool" where
  "equal_ignoring_case a b = list_all2 same_letter a b"

text \<open>
  The filtering rule: every product when no filter is selected, else the products whose
  category equals some entry of the filter set up to case.
\<close>

definition keeps :: "string list \<Rightarrow> product \<Rightarrow> bool" where
  "keeps F p = (F = [] \<or> (\<exists>f \<in> set F. equal_ignoring_case (category p) f))"

text \<open>
  The order that a sort key asks of the filtered products: ascending price with ties in
  their given order for \<open>''price''\<close>, the runtime's sort by \<^verbatim>\<open>localeCompare\<close> of the titles for
  \<open>''name''\<close>, the given order for any other key.
\<close>

definition ordered_by :: "runtime \<Rightarrow> string \<Rightarrow> product list \<Rightarrow> product list" where
  "ordered_by rt K xs =
     (if K = ''price'' then sort_key price xs
      else if K = ''name'' then array_sort (\<lambda>a b. localeCompare rt (title a) (title b)) xs
      else xs)"

text \<open>
  A consistent comparator in the sense of ECMAScript's sort: \<open>cmp a b \<le> 0\<close> is a total
  preorder. Collation by a locale is one.
\<close>

definition consistent_comparator :: "('a \<Rightarrow> 'a \<Rightarrow> int) \<Rightarrow> bool" where
  "consistent_comparator cmp =
     ((\<forall>a b. 0 < cmp a b \<longrightarrow> cmp b a \<le> 0) \<and>
      (\<forall>a b c. cmp a b \<le> 0 \<and> cmp b c \<le> 0 \<longrightarrow> cmp a c \<le> 0))"


text \<open>The number of hundredths nearest to the magnitude of a number, the larger on a tie.\<close>

definition hundredths :: "rat \<Rightarrow> nat" where
  "hundredths x = nat \<lfloor>\<bar>x\<bar> * 100 + 1 / 2\<rfloor>"

text \<open>
  Two program states that differ at most in what the renderer draws: the counter text and
  the content of the product container.
\<close>

definition only_redraws :: "world \<Rightarrow> world \<Rightarrow> bool" where
  "only_redraws w w' =
     (productsState w' = productsState w \<and>
      visibleProductsState w' = visibleProductsState w \<and>
      filtersState w' = filtersState w \<and>
      isLoading w' = isLoading w \<and>
      currentPage w' = currentPage w \<and>
      writes w' = writes w \<and>
      filter_checkboxes (document w') = filter_checkboxes (document w) \<and>
      sort_dropdown_value (document w') = sort_dropdown_value (document w) \<and>
      load_more_display (document w') = load_more_display (document w))"


section \<open>Concrete inputs\<close>

text \<open>
  A runtime to evaluate with: strings compare by code unit, and the only number that the
  examples print through Number-to-String is \<open>10\<^sup>2\<^sup>1\<close>, which ECMAScript prints as \<^verbatim>\<open>1e+21\<close>.
\<close>

fun compare_code_units :: "string \<Rightarrow> string \<Rightarrow> int" where
  "compare_code_units [] [] = 0"
| "compare_code_units [] (b # bs) = - 1"
| "compare_code_units (a # as) [] = 1"
| "compare_code_units (a # as) (b # bs) =
     (if (of_char a :: nat) < of_char b then - 1
      else if (of_char b :: nat) < of_char a then 1
      else compare_code_units as bs)"

definition example_runtime :: runtime where
  "example_runtime = \<lparr>localeCompare = compare_code_units, numberToString = (\<lambda>x. ''1e+21'')\<rparr>"

definition backpack :: product where
  "backpack = \<lparr>product_id = 1, title = ''Backpack'', price = 10995 / 100,
     category = ''men's clothing'', image_url = ''img/1.jpg''\<rparr>"

definition tshirt :: product where
  "tshirt = \<lparr>product_id = 2, title = ''T-Shirt'', price = 223 / 10,
     category = ''men's clothing'', image_url = ''img/2.jpg''\<rparr>"

definition ring :: product where
  "ring = \<lparr>product_id = 5, title = ''Ring'', price = 223 / 10,
     category = ''jewelery'', image_url = ''img/5.jpg''\<rparr>"

definition yacht :: product where
  "yacht = \<lparr>product_id = 9, title = ''Yacht'', price = 10 ^ 21,
     category = ''electronics'', image_url = ''img/9.jpg''\<rparr>"

definition example_catalog :: "product list" where
  "example_catalog = [backpack, tshirt, ring]"

definition example_response :: response where
  "example_response = \<lparr>status = 200, body = ProductArray example_catalog\<rparr>"



definition espresso :: product where
  "espresso = \<lparr>product_id = 7, title = ''Espresso'', price = 3,
     category = [CHR ''C'', CHR ''A'', CHR ''F'', CHR 0xC9], image_url = ''img/7.jpg''\<rparr>"

definition cafe_response :: response where
  "cafe_response = \<lparr>status = 200, body = ProductArray [espresso, ring]\<rparr>"

definition yacht_response :: response where
  "yacht_response = \<lparr>status = 200, body = ProductArray [yacht]\<rparr>"

definition numbered_product :: "nat \<Rightarrow> product" where
  "numbered_product i = \<lparr>product_id = i, title = ''Item'', price = of_nat i,
     category = ''electronics'', image_url = ''img/item.jpg''\<rparr>"

definition response25 :: response where
  "response25 = \<lparr>status = 200, body = ProductArray (map numbered_product [0..<25])\<rparr>"

definition example_document :: document where
  "example_document =
     \<lparr>filter_checkboxes = [(True, ''jewelery''), (False, ''electronics'')],
      sort_dropdown_value = ''price'',
      results_count_textContent = [],
      products_innerHTML = [],
      load_more_display = ''block''\<rparr>"

definition loaded_world :: world where
  "loaded_world =
     world_of (init example_runtime (Response example_response) (module_state example_document))"

definition loaded25 :: world where
  "loaded25 =
     world_of (init example_runtime (Response response25) (module_state example_document))"

definition stuck_world :: world where
  "stuck_world = world_of (init example_runtime NetworkFailure (module_state example_document))"

definition yacht_world :: world where
  "yacht_world =
     world_of (init example_runtime (Response yacht_response) (module_state example_document))"


section \<open>Sorting and fetching\<close>

lemma mset_insert_sorted: "mset (insert_sorted c x xs) = add_mset x (mset xs)"
  by (induction xs) simp_all

lemma mset_array_sort: "mset (array_sort c xs) = mset xs"
  by (induction xs) (simp_all add: array_sort_def mset_insert_sorted)

lemma set_insert_sorted: "set (insert_sorted c x xs) = insert x (set xs)"
  by (induction xs) auto

lemma sorted_insert_sorted:
  fixes cmp :: "'a \<Rightarrow> 'a \<Rightarrow> int"
  assumes "consistent_comparator cmp" and "sorted_wrt (\<lambda>a b. cmp a b \<le> 0) xs"
  shows "sorted_wrt (\<lambda>a b. cmp a b \<le> 0) (insert_sorted cmp x xs)"
  using assms(2)
proof (induction xs)
  case Nil
  then show ?case by simp
next
  case (Cons y ys)
  show ?case
  proof (cases "0 < cmp x y")
    case True
    then have "cmp y x \<le> 0"
      using assms(1) by (simp add: consistent_comparator_def)
    with True Cons show ?thesis
      by (auto simp: set_insert_sorted)
  next
    case False
    then have xy: "cmp x y \<le> 0" by simp
    have "cmp x z \<le> 0" if "z \<in> set ys" for z
    proof -
      from Cons.prems that have "cmp y z \<le> 0" by simp
      with xy show ?thesis
        using assms(1) unfolding consistent_comparator_def by blast
    qed
    with False xy Cons.prems show ?thesis by auto
  qed
qed

lemma sorted_array_sort:
  fixes cmp :: "'a \<Rightarrow> 'a \<Rightarrow> int"
  assumes "consistent_comparator cmp"
  shows "sorted_wrt (\<lambda>a b. cmp a b \<le> 0) (array_sort cmp xs)"
proof (induction xs)
  case Nil
  show ?case by (simp add: array_sort_def)
next
  case (Cons x xs)
  then show ?case
    using sorted_insert_sorted [OF assms, of "array_sort cmp xs" x]
    by (simp add: array_sort_def)
qed

text \<open>With the price comparator the sort is the library's stable \<^const>\<open>sort_key\<close>.\<close>

lemma insert_sorted_price:
  "insert_sorted (\<lambda>a b. price a - price b) x xs = insort_key price x xs"
  by (induction xs) auto

lemma array_sort_price: "array_sort (\<lambda>a b. price a - price b) xs = sort_key price xs"
  by (induction xs) (simp_all add: array_sort_def insert_sorted_price sort_key_def)

text \<open>
  Two strings have the same \<^verbatim>\<open>toLowerCase\<close> exactly when they are equal up to case: the
  comparison of line 36 is the case-insensitive one.
\<close>

lemma of_char_toLowerCase_char:
  "(of_char (toLowerCase_char c) :: nat) = (if capital c then of_char c + 32 else of_char c)"
proof (cases "capital c")
  case True
  then have "(of_char c :: nat) + 32 < 256"
    by (auto simp: capital_def)
  with True show ?thesis
    by (simp add: toLowerCase_char_def capital_def Let_def)
next
  case False
  then show ?thesis
    by (auto simp: toLowerCase_char_def capital_def Let_def)
qed

lemma toLowerCase_char_eq_iff: "toLowerCase_char c = toLowerCase_char d \<longleftrightarrow> same_letter c d"
proof -
  have "toLowerCase_char c = toLowerCase_char d \<longleftrightarrow>
          (of_char (toLowerCase_char c) :: nat) = of_char (toLowerCase_char d)"
    by simp
  also have "\<dots> \<longleftrightarrow> (if capital c then of_char c + 32 else (of_char c :: nat)) =
                       (if capital d then of_char d + 32 else of_char d)"
    by (simp only: of_char_toLowerCase_char)
  also have "\<dots> \<longleftrightarrow> same_letter c d"
  proof -
    have eq: "c = d \<longleftrightarrow> (of_char c :: nat) = of_char d" by simp
    show ?thesis
      unfolding same_letter_def eq capital_def by (auto split: if_splits)
  qed
  finally show ?thesis .
qed

lemma toLowerCase_eq_iff: "toLowerCase a = toLowerCase b \<longleftrightarrow> equal_ignoring_case a b"
proof (induction a arbitrary: b)
  case Nil
  show ?case by (auto simp: toLowerCase_def equal_ignoring_case_def)
next
  case (Cons x xs)
  show ?case
  proof (cases b)
    case Nil
    then show ?thesis by (simp add: toLowerCase_def equal_ignoring_case_def)
  next
    case (Cons y ys)
    with Cons.IH [of ys] show ?thesis
      by (simp add: toLowerCase_def equal_ignoring_case_def toLowerCase_char_eq_iff)
  qed
qed

lemma filter_keeps:
  "(if F \<noteq> [] then filter (matches_filters F) data else data) = filter (keeps F) data"
  by (auto simp: keeps_def matches_filters_def list_ex_iff toLowerCase_eq_iff intro: filter_cong)

lemma fetchProducts_success:
  assumes "body response = ProductArray data"
  shows "fetchProducts rt (Response response) F K =
           Inr (Products (ordered_by rt K (filter (keeps F) data)))"
  using assms
  by (simp add: fetchProducts_def Let_def filter_keeps array_sort_price ordered_by_def)

lemma length_insert_sorted: "length (insert_sorted c x xs) = Suc (length xs)"
  by (induction xs) simp_all

lemma length_array_sort: "length (array_sort c xs) = length xs"
  by (induction xs) (simp_all add: array_sort_def length_insert_sorted)

lemma mset_ordered_by: "mset (ordered_by rt K xs) = mset xs"
  by (simp add: ordered_by_def mset_array_sort)

lemma length_ordered_by: "length (ordered_by rt K xs) = length xs"
  by (simp add: ordered_by_def length_array_sort)



lemma compare_code_units_flip: "0 < compare_code_units a b \<Longrightarrow> compare_code_units b a \<le> 0"
  by (induction a b rule: compare_code_units.induct) (auto split: if_splits)

lemma compare_code_units_trans:
  "compare_code_units a b \<le> 0 \<Longrightarrow> compare_code_units b c \<le> 0 \<Longrightarrow> compare_code_units a c \<le> 0"
proof (induction a b arbitrary: c rule: compare_code_units.induct)
  case 1
  then show ?case by simp
next
  case (2 b bs)
  then show ?case by (cases c) simp_all
next
  case (3 a as)
  then show ?case by simp
next
  case (4 a as b bs)
  show ?case
  proof (cases c)
    case Nil
    with "4.prems" show ?thesis by simp
  next
    case (Cons x xs)
    let ?a = "of_char a :: nat" and ?b = "of_char b :: nat" and ?x = "of_char x :: nat"
    from "4.prems"(1) have ab: "?a \<le> ?b"
      by (simp split: if_splits)
    from "4.prems"(2) Cons have bx: "?b \<le> ?x"
      by (simp split: if_splits)
    show ?thesis
    proof (cases "?a < ?x")
      case True
      with Cons show ?thesis by simp
    next
      case False
      with ab bx have "?a = ?b \<and> ?b = ?x" by linarith
      then have eq: "a = b" "b = x" by simp_all
      with "4.prems" Cons have "compare_code_units as bs \<le> 0" "compare_code_units bs xs \<le> 0"
        by simp_all
      with "4.IH" eq have "compare_code_units as xs \<le> 0" by simp
      with eq Cons show ?thesis by simp
    qed
  qed
qed

lemma consistent_compare_code_units: "consistent_comparator compare_code_units"
  unfolding consistent_comparator_def
  using compare_code_units_flip compare_code_units_trans by blast


section \<open>What a store write changes\<close>

lemma only_redraws_refl: "only_redraws w w"
  by (simp add: only_redraws_def)

lemma only_redraws_trans: "only_redraws a b \<Longrightarrow> only_redraws b c \<Longrightarrow> only_redraws a c"
  by (simp add: only_redraws_def)

lemma renderProducts_only_redraws: "only_redraws w (renderProducts rt w)"
  by (simp add: only_redraws_def renderProducts_def Let_def)

lemma call_listener_only_redraws: "only_redraws w (call_listener rt l w)"
  by (cases l) (simp add: renderProducts_only_redraws)

lemma fold_call_listener_only_redraws: "only_redraws w (fold (call_listener rt) ls w)"
proof (induction ls arbitrary: w)
  case Nil
  show ?case by (simp add: only_redraws_refl)
next
  case (Cons l ls)
  have "only_redraws w (call_listener rt l w)"
    by (rule call_listener_only_redraws)
  moreover have "only_redraws (call_listener rt l w)
                   (fold (call_listener rt) ls (call_listener rt l w))"
    by (rule Cons.IH)
  ultimately show ?case
    by (auto intro: only_redraws_trans)
qed

lemma productsState_setState_frame:
  "only_redraws
     (w\<lparr>productsState := (productsState w)\<lparr>state := v\<rparr>,
        writes := writes w @ [(ProductsState, listeners (productsState w))]\<rparr>)
     (productsState_setState rt v w)"
  by (simp add: productsState_setState_def setState_def fold_call_listener_only_redraws)

lemma visibleProductsState_setState_frame:
  "only_redraws
     (w\<lparr>visibleProductsState := (visibleProductsState w)\<lparr>state := v\<rparr>,
        writes := writes w @ [(VisibleProductsState, listeners (visibleProductsState w))]\<rparr>)
     (visibleProductsState_setState rt v w)"
  by (simp add: visibleProductsState_setState_def setState_def fold_call_listener_only_redraws)

lemma filtersState_setState_frame:
  "only_redraws
     (w\<lparr>filtersState := (filtersState w)\<lparr>state := v\<rparr>,
        writes := writes w @ [(FiltersState, listeners (filtersState w))]\<rparr>)
     (filtersState_setState rt v w)"
  by (simp add: filtersState_setState_def setState_def fold_call_listener_only_redraws)

lemma isLoading_setState_frame:
  "only_redraws
     (w\<lparr>isLoading := (isLoading w)\<lparr>state := v\<rparr>,
        writes := writes w @ [(IsLoading, listeners (isLoading w))]\<rparr>)
     (isLoading_setState rt v w)"
  by (simp add: isLoading_setState_def setState_def fold_call_listener_only_redraws)

lemmas setState_frames =
  productsState_setState_frame [unfolded only_redraws_def, simplified]
  visibleProductsState_setState_frame [unfolded only_redraws_def, simplified]
  filtersState_setState_frame [unfolded only_redraws_def, simplified]
  isLoading_setState_frame [unfolded only_redraws_def, simplified]


section \<open>Growing the visible window\<close>

lemma slice_from_zero: "slice 0 n xs = take n xs"
  by (simp add: slice_def)

lemma take_append_next_page:
  "take n xs @ slice (length (take n xs)) (length (take n xs) + 10) xs = take (n + 10) xs"
proof (cases "n \<le> length xs")
  case True
  then have "length (take n xs) = n" by simp
  then show ?thesis
    by (simp add: slice_def take_add [symmetric] add.commute)
next
  case False
  then show ?thesis by (simp add: slice_def)
qed

lemma loadMoreProducts_on_array:
  assumes "getState (productsState w) = Products xs"
  shows "\<exists>w'. loadMoreProducts rt w = Inr w' \<and>
              productsState w' = productsState w \<and>
              getState (visibleProductsState w') =
                getState (visibleProductsState w) @
                slice (length (getState (visibleProductsState w)))
                      (length (getState (visibleProductsState w)) + 10) xs"
  using assms
  by (simp add: loadMoreProducts_def Let_def set_load_more_display_def setState_frames
        getState_def)

lemma loadMoreProducts_times_on_array:
  assumes "getState (productsState w) = Products xs"
    and "getState (visibleProductsState w) = take n xs"
  shows "\<exists>w'. loadMoreProducts_times rt N w = Inr w' \<and>
              productsState w' = productsState w \<and>
              getState (visibleProductsState w') = take (n + 10 * N) xs"
  using assms
proof (induction N arbitrary: w n)
  case 0
  then show ?case by simp
next
  case (Suc N)
  from loadMoreProducts_on_array [OF Suc.prems(1), of rt]
  obtain w1 where step: "loadMoreProducts rt w = Inr w1"
    and p1: "productsState w1 = productsState w"
    and v1: "getState (visibleProductsState w1) =
               getState (visibleProductsState w) @
               slice (length (getState (visibleProductsState w)))
                     (length (getState (visibleProductsState w)) + 10) xs"
    by blast
  from p1 Suc.prems(1) have a1: "getState (productsState w1) = Products xs"
    by (simp add: getState_def)
  from v1 have a2: "getState (visibleProductsState w1) = take (n + 10) xs"
    by (simp only: Suc.prems(2) take_append_next_page)
  from Suc.IH [OF a1 a2]
  obtain w' where rest: "loadMoreProducts_times rt N w1 = Inr w'"
    and p': "productsState w' = productsState w1"
    and v': "getState (visibleProductsState w') = take (n + 10 + 10 * N) xs"
    by blast
  from step rest have "loadMoreProducts_times rt (Suc N) w = Inr w'" by simp
  moreover from p' p1 have "productsState w' = productsState w" by simp
  moreover from v' have "getState (visibleProductsState w') = take (n + 10 * Suc N) xs"
    by (simp add: add.assoc)
  ultimately show ?case by blast
qed

text \<open>What each sequence leaves in the stores when the response carries a product array.\<close>

lemma handleFilterChange_success:
  assumes "body r = ProductArray data"
  shows "\<exists>w. handleFilterChange rt (Response r) w0 = Fulfilled w \<and>
             getState (productsState w) =
               Products (ordered_by rt (sort_dropdown_value (document w0))
                 (filter (keeps (map snd (filter fst (filter_checkboxes (document w0))))) data)) \<and>
             getState (visibleProductsState w) =
               take 10 (ordered_by rt (sort_dropdown_value (document w0))
                 (filter (keeps (map snd (filter fst (filter_checkboxes (document w0))))) data))"
  by (simp add: handleFilterChange_def Let_def fetchProducts_success [OF assms] slice_fetched_def
        set_load_more_display_def setState_frames getState_def slice_from_zero)

lemma handleSortChange_success:
  assumes "body r = ProductArray data"
  shows "\<exists>w. handleSortChange rt (Response r) w0 = Fulfilled w \<and>
             getState (productsState w) =
               Products (ordered_by rt (sort_dropdown_value (document w0))
                 (filter (keeps (getState (filtersState w0))) data)) \<and>
             getState (visibleProductsState w) =
               take 10 (ordered_by rt (sort_dropdown_value (document w0))
                 (filter (keeps (getState (filtersState w0))) data))"
  by (simp add: handleSortChange_def Let_def fetchProducts_success [OF assms] slice_fetched_def
        set_load_more_display_def setState_frames getState_def slice_from_zero)

lemma init_success:
  assumes "body r = ProductArray data"
  shows "\<exists>w. init rt (Response r) w0 = Fulfilled w \<and>
             getState (productsState w) = Products (ordered_by rt ''price'' (filter (keeps []) data)) \<and>
             getState (visibleProductsState w) =
               take 10 (ordered_by rt ''price'' (filter (keeps []) data))"
  by (simp add: init_def Let_def fetchProducts_success [OF assms] slice_fetched_def
        setState_frames getState_def slice_from_zero)

text \<open>What a fulfilled sequence has left, whatever the response was.\<close>

lemma handleFilterChange_fulfilled:
  assumes "handleFilterChange rt result w0 = Fulfilled w"
  shows "\<exists>out. getState (productsState w) = Products out \<and>
               getState (visibleProductsState w) = take 10 out"
  using assms
  by (auto simp: handleFilterChange_def Let_def set_load_more_display_def setState_frames
        getState_def slice_from_zero slice_fetched_def split: sum.splits fetched.splits)

lemma handleSortChange_fulfilled:
  assumes "handleSortChange rt result w0 = Fulfilled w"
  shows "\<exists>out. getState (productsState w) = Products out \<and>
               getState (visibleProductsState w) = take 10 out"
  using assms
  by (auto simp: handleSortChange_def Let_def set_load_more_display_def setState_frames
        getState_def slice_from_zero slice_fetched_def split: sum.splits fetched.splits)

lemma init_fulfilled:
  assumes "init rt result w0 = Fulfilled w"
  shows "\<exists>out. getState (productsState w) = Products out \<and>
               getState (visibleProductsState w) = take 10 out"
  using assms
  by (auto simp: init_def Let_def setState_frames getState_def slice_from_zero slice_fetched_def
        split: sum.splits fetched.splits)


section \<open>Printing numbers\<close>

lemma digit_chars:
  "digit 0 = CHR ''0''" "digit (Suc 0) = CHR ''1''" "digit 1 = CHR ''1''"
  "digit 2 = CHR ''2''" "digit 3 = CHR ''3''" "digit 4 = CHR ''4''" "digit 5 = CHR ''5''"
  "digit 6 = CHR ''6''" "digit 7 = CHR ''7''" "digit 8 = CHR ''8''" "digit 9 = CHR ''9''"
  by code_simp+

lemma digit_nth: "d < 10 \<Longrightarrow> digit d = ''0123456789'' ! d"
proof -
  assume "d < 10"
  then have "d \<in> {0, 1, 2, 3, 4, 5, 6, 7, 8, 9}" by auto
  then show ?thesis by (auto simp: digit_chars)
qed

lemma decimal_small: "n < 10 \<Longrightarrow> decimal n = [digit n]"
  by (simp add: decimal.simps)

lemma decimal_step: "10 \<le> n \<Longrightarrow> decimal n = decimal (n div 10) @ [digit (n mod 10)]"
  by (subst decimal.simps) simp

lemma decimal_two_digits:
  assumes "10 \<le> n" "n < 100"
  shows "decimal n = [digit (n div 10), digit (n mod 10)]"
proof -
  from assms have "n div 10 < 10" by simp
  with assms show ?thesis by (simp add: decimal_step decimal_small)
qed

lemma decimal_last_two:
  assumes "100 \<le> n"
  shows "decimal n = decimal (n div 100) @ [digit (n div 10 mod 10), digit (n mod 10)]"
proof -
  from assms have "10 \<le> n div 10" by simp
  moreover have "n div 10 div 10 = n div 100" by (simp add: div_mult2_eq [symmetric])
  ultimately show ?thesis
    using assms by (simp add: decimal_step)
qed

lemma decimal_nonempty: "decimal n \<noteq> []"
  by (subst decimal.simps) simp

lemma fixed_point_2:
  "(let m0 = decimal n;
        m1 = (if length m0 \<le> 2 then replicate (2 + 1 - length m0) (CHR ''0'') @ m0 else m0);
        k = length m1
    in take (k - 2) m1 @ ''.'' @ drop (k - 2) m1) =
   decimal (n div 100) @ ''.'' @ [digit (n div 10 mod 10), digit (n mod 10)]"
proof -
  consider "n < 10" | "10 \<le> n" "n < 100" | "100 \<le> n" by linarith
  then show ?thesis
  proof cases
    case 1
    then show ?thesis
      by (simp add: decimal_small digit_chars numeral_2_eq_2)
  next
    case 2
    then have "n div 100 = 0" "n div 10 mod 10 = n div 10" by simp_all
    with 2 show ?thesis
      by (simp add: decimal_two_digits decimal_small digit_chars)
  next
    case 3
    then show ?thesis
      by (simp add: decimal_last_two [of n] decimal_nonempty Let_def)
  qed
qed

lemma toFixed_2_signed:
  assumes "\<bar>x\<bar> < 10 ^ 21"
  shows "toFixed rt 2 x =
           (if x < 0 then ''-'' else []) @
           decimal (nat \<lfloor>\<bar>x\<bar> * 100 + 1 / 2\<rfloor> div 100) @ ''.'' @
           [digit (nat \<lfloor>\<bar>x\<bar> * 100 + 1 / 2\<rfloor> div 10 mod 10),
            digit (nat \<lfloor>\<bar>x\<bar> * 100 + 1 / 2\<rfloor> mod 10)]"
proof -
  let ?n = "nat \<lfloor>\<bar>x\<bar> * 100 + 1 / 2\<rfloor>"
  from assms have "toFixed rt 2 x = (if x < 0 then ''-'' else []) @
      (let m0 = decimal ?n;
        m1 = (if length m0 \<le> 2 then replicate (2 + 1 - length m0) (CHR ''0'') @ m0 else m0);
        k = length m1
       in take (k - 2) m1 @ ''.'' @ drop (k - 2) m1)"
    by (simp add: toFixed_def Let_def abs_if)
  then show ?thesis
    by (simp only: fixed_point_2)
qed

lemma nearest_cent:
  fixes x :: rat
  assumes "0 \<le> x"
  shows "\<bar>of_nat (nat \<lfloor>x * 100 + 1 / 2\<rfloor>) / 100 - x\<bar> \<le> 1 / 200"
proof -
  let ?n = "\<lfloor>x * 100 + 1 / 2\<rfloor>"
  from assms have "0 \<le> ?n" by simp
  then have n: "(of_nat (nat ?n) :: rat) = of_int ?n" by simp
  have "of_int ?n \<le> x * 100 + 1 / 2" "x * 100 + 1 / 2 < of_int ?n + 1"
    by linarith+
  then show ?thesis
    unfolding n by linarith
qed

lemma floor_numeral_quotient:
  "\<lfloor>numeral a / numeral b :: rat\<rfloor> = numeral a div numeral b"
  using floor_divide_of_int_eq [of "numeral a" "numeral b", where ?'a = rat] by simp


section \<open>The renderer and the example states\<close>

lemma renderProducts_document:
  "document (renderProducts rt w) =
     (document w)\<lparr>results_count_textContent :=
                     decimal (length (getState (visibleProductsState w))) @ '' Results'',
                   products_innerHTML :=
                     (if getState (isLoading w) then ''Loading...''
                      else concat (map (product_card rt) (getState (visibleProductsState w))))\<rparr>"
  by (simp add: renderProducts_def Let_def)

lemma sublist_concat_member: "x \<in> set xss \<Longrightarrow> sublist x (concat xss)"
proof -
  assume "x \<in> set xss"
  then obtain as bs where "xss = as @ x # bs"
    by (auto simp: in_set_conv_decomp)
  then have "concat xss = concat as @ x @ concat bs" by simp
  then show ?thesis unfolding sublist_def by blast
qed

lemma sublist_card_template:
  "sublist i (card_template i t p)" "sublist t (card_template i t p)"
  "sublist p (card_template i t p)" "sublist wishlist_icon (card_template i t p)"
  unfolding card_template_def by (rule sublist_concat_member, simp)+

lemma fetch_example_by_price:
  "fetchProducts example_runtime (Response example_response) [] ''price''
     = Inr (Products [tshirt, ring, backpack])"
  by code_simp

lemma fetch_example_jewelery:
  "fetchProducts example_runtime (Response example_response) [''jewelery''] ''price''
     = Inr (Products [ring])"
  by code_simp

lemmas run_defs =
  isLoading_setState_def productsState_setState_def visibleProductsState_setState_def
  filtersState_setState_def setState_def getState_def subscribe_def createState_def
  renderProducts_def set_load_more_display_def slice_def slice_fetched_def Let_def

lemma loaded_world_eq:
  "loaded_world =
     \<lparr>productsState = \<lparr>state = Products [tshirt, ring, backpack], listeners = []\<rparr>,
      visibleProductsState = \<lparr>state = [tshirt, ring, backpack], listeners = [RenderProducts]\<rparr>,
      filtersState = \<lparr>state = [], listeners = []\<rparr>,
      isLoading = \<lparr>state = False, listeners = [RenderProducts]\<rparr>,
      currentPage = 0,
      document =
        \<lparr>filter_checkboxes = [(True, ''jewelery''), (False, ''electronics'')],
         sort_dropdown_value = ''price'',
         results_count_textContent = ''3 Results'',
         products_innerHTML = concat (map (product_card example_runtime) [tshirt, ring, backpack]),
         load_more_display = ''block''\<rparr>,
      writes = [(IsLoading, [RenderProducts]), (ProductsState, []),
                (VisibleProductsState, [RenderProducts]), (IsLoading, [RenderProducts])]\<rparr>"
  by (simp add: loaded_world_def init_def fetch_example_by_price module_state_def
        example_document_def run_defs decimal.simps digit_nth)

section \<open>Properties of the product fetcher\<close>

text \<open>
  C1. For every filter set \<open>F\<close> and sort key \<open>K\<close>, on a fetched catalog \<open>data\<close>,
  \<^verbatim>\<open>fetchProducts\<close> returns exactly the products of \<open>data\<close> (with multiplicity) whose category
  equals some entry of \<open>F\<close> up to the case of its letters, or all of \<open>data\<close> when \<open>F\<close> is
  empty, ordered by \<open>K\<close>'s rule: non-decreasing price for \<open>''price''\<close>, and for \<open>''name''\<close> by
  the locale's comparison of titles, given that this comparison is consistent. Equality up
  to case is \<^const>\<open>equal_ignoring_case\<close>, which is stated without \<^verbatim>\<open>toLowerCase\<close>.
\<close>

theorem fetchProducts_filters_then_orders:
  assumes "body response = ProductArray data"
  shows "\<exists>out. fetchProducts rt (Response response) F K = Inr (Products out) \<and>
           mset out = mset (filter (keeps F) data) \<and>
           (K = ''price'' \<longrightarrow> sorted_wrt (\<lambda>a b. price a \<le> price b) out) \<and>
           (K = ''name'' \<and> consistent_comparator (localeCompare rt) \<longrightarrow>
              sorted_wrt (\<lambda>a b. localeCompare rt (title a) (title b) \<le> 0) out)"
proof -
  let ?cmp = "\<lambda>a b. localeCompare rt (title a) (title b)"
  have name: "sorted_wrt (\<lambda>a b. ?cmp a b \<le> 0) (array_sort ?cmp xs)"
    if "consistent_comparator (localeCompare rt)" for xs
  proof -
    from that have "consistent_comparator ?cmp"
      unfolding consistent_comparator_def by blast
    then show ?thesis by (rule sorted_array_sort)
  qed
  have price: "sorted_wrt (\<lambda>a b. price a \<le> price b) (sort_key price xs)" for xs
    using sorted_sort_key [of price xs] by (simp add: sorted_map)
  show ?thesis
    by (simp add: fetchProducts_success [OF assms] ordered_by_def name price mset_array_sort)
qed

theorem fetchProducts_filters_then_orders_witness:
  "body example_response = ProductArray example_catalog \<and>
   fetchProducts example_runtime (Response example_response) [''MEN'S CLOTHING''] ''price''
     = Inr (Products [tshirt, backpack]) \<and>
   mset [tshirt, backpack] = mset (filter (keeps [''MEN'S CLOTHING'']) example_catalog) \<and>
   sorted_wrt (\<lambda>a b. price a \<le> price b) [tshirt, backpack] \<and>
   consistent_comparator (localeCompare example_runtime) \<and>
   fetchProducts example_runtime (Response example_response) [] ''name''
     = Inr (Products [backpack, ring, tshirt]) \<and>
   mset [backpack, ring, tshirt] = mset (filter (keeps []) example_catalog) \<and>
   sorted_wrt (\<lambda>a b. localeCompare example_runtime (title a) (title b) \<le> 0)
     [backpack, ring, tshirt] \<and>
   body cafe_response = ProductArray [espresso, ring] \<and>
   fetchProducts example_runtime (Response cafe_response)
       [[CHR ''c'', CHR ''a'', CHR ''f'', CHR 0xE9]] ''price''
     = Inr (Products [espresso]) \<and>
   mset [espresso] =
     mset (filter (keeps [[CHR ''c'', CHR ''a'', CHR ''f'', CHR 0xE9]]) [espresso, ring])"
proof -
  have h: "body example_response = ProductArray example_catalog"
    by (simp add: example_response_def)
  have h': "body cafe_response = ProductArray [espresso, ring]"
    by (simp add: cafe_response_def)
  have c: "consistent_comparator (localeCompare example_runtime)"
    by (simp add: example_runtime_def consistent_compare_code_units)
  have e1: "fetchProducts example_runtime (Response example_response)
              [''MEN'S CLOTHING''] ''price'' = Inr (Products [tshirt, backpack])"
    by code_simp
  have e2: "fetchProducts example_runtime (Response example_response) [] ''name''
              = Inr (Products [backpack, ring, tshirt])"
    by code_simp
  have e3: "fetchProducts example_runtime (Response cafe_response)
              [[CHR ''c'', CHR ''a'', CHR ''f'', CHR 0xE9]] ''price'' = Inr (Products [espresso])"
    by code_simp
  from fetchProducts_filters_then_orders
         [OF h, of example_runtime "[''MEN'S CLOTHING'']" "''price''"] e1
  have by_price: "mset [tshirt, backpack] = mset (filter (keeps [''MEN'S CLOTHING'']) example_catalog)"
    "sorted_wrt (\<lambda>a b. price a \<le> price b) [tshirt, backpack]"
    by auto
  from fetchProducts_filters_then_orders [OF h, of example_runtime "[]" "''name''"] e2 c
  have by_name: "mset [backpack, ring, tshirt] = mset (filter (keeps []) example_catalog)"
    "sorted_wrt (\<lambda>a b. localeCompare example_runtime (title a) (title b) \<le> 0)
       [backpack, ring, tshirt]"
    by auto
  from fetchProducts_filters_then_orders
         [OF h', of example_runtime "[[CHR ''c'', CHR ''a'', CHR ''f'', CHR 0xE9]]" "''price''"] e3
  have latin1: "mset [espresso] =
     mset (filter (keeps [[CHR ''c'', CHR ''a'', CHR ''f'', CHR 0xE9]]) [espresso, ring])"
    by auto
  from h h' c e1 e2 e3 by_price by_name latin1 show ?thesis by blast
qed




text \<open>
  C5. With the sort key \<open>''price''\<close> the output is non-decreasing in price (every adjacent
  pair, and so every pair in order), and stable: the products of any one price appear in
  the order they have in the catalog.
\<close>

theorem price_sort_stable_nondecreasing:
  assumes "body response = ProductArray data"
  shows "\<exists>out. fetchProducts rt (Response response) F ''price'' = Inr (Products out) \<and>
           (\<forall>i. Suc i < length out \<longrightarrow> price (out ! i) \<le> price (out ! Suc i)) \<and>
           sorted (map price out) \<and>
           (\<forall>k. filter (\<lambda>p. price p = k) out =
                filter (\<lambda>p. price p = k) (filter (keeps F) data))"
proof -
  let ?out = "sort_key price (filter (keeps F) data)"
  have s: "sorted (map price ?out)" by (rule sorted_sort_key)
  have adj: "price (?out ! i) \<le> price (?out ! Suc i)" if "Suc i < length ?out" for i
  proof -
    from that have "map price ?out ! i \<le> map price ?out ! Suc i"
      using s by (intro sorted_nth_mono) simp_all
    with that show ?thesis by simp
  qed
  have stable: "filter (\<lambda>p. price p = k) ?out = filter (\<lambda>p. price p = k) (filter (keeps F) data)"
    for k by (rule sort_key_stable)
  have "fetchProducts rt (Response response) F ''price'' = Inr (Products ?out)"
    by (simp add: fetchProducts_success [OF assms] ordered_by_def)
  with s adj stable show ?thesis by blast
qed

theorem price_sort_stable_nondecreasing_witness:
  "body example_response = ProductArray example_catalog \<and>
   fetchProducts example_runtime (Response example_response) [] ''price''
     = Inr (Products [tshirt, ring, backpack]) \<and>
   sorted (map price [tshirt, ring, backpack]) \<and>
   filter (\<lambda>p. price p = 223 / 10) [tshirt, ring, backpack] =
     filter (\<lambda>p. price p = 223 / 10) (filter (keeps []) example_catalog)"
proof -
  have h: "body example_response = ProductArray example_catalog"
    by (simp add: example_response_def)
  from price_sort_stable_nondecreasing [OF h, of example_runtime "[]"]
  obtain out where o: "fetchProducts example_runtime (Response example_response) [] ''price''
                         = Inr (Products out)"
    and s: "sorted (map price out)"
    and st: "\<forall>k. filter (\<lambda>p. price p = k) out =
                 filter (\<lambda>p. price p = k) (filter (keeps []) example_catalog)"
    by blast
  from o have eq: "out = [tshirt, ring, backpack]"
    by (simp add: fetch_example_by_price)
  from s eq have 1: "sorted (map price [tshirt, ring, backpack])" by blast
  from st eq have 2: "filter (\<lambda>p. price p = 223 / 10) [tshirt, ring, backpack] =
     filter (\<lambda>p. price p = 223 / 10) (filter (keeps []) example_catalog)" by blast
  from h fetch_example_by_price 1 2 show ?thesis by blast
qed

text \<open>
  C10. For every filter set and every sort key other than \<open>''price''\<close> and \<open>''name''\<close>,
  \<^verbatim>\<open>fetchProducts\<close> returns the filtered products in the order of the catalog.
\<close>

theorem other_sort_keys_keep_catalog_order:
  assumes "K \<noteq> ''price''" and "K \<noteq> ''name''" and "body response = ProductArray data"
  shows "fetchProducts rt (Response response) F K = Inr (Products (filter (keeps F) data))"
  using assms by (simp add: fetchProducts_success ordered_by_def)

theorem other_sort_keys_keep_catalog_order_witness:
  "''rating'' \<noteq> ''price'' \<and> ''rating'' \<noteq> ''name'' \<and>
   body example_response = ProductArray example_catalog \<and>
   fetchProducts example_runtime (Response example_response) [''Men's Clothing''] ''rating''
     = Inr (Products [backpack, tshirt])"
proof -
  have h: "body example_response = ProductArray example_catalog"
    by (simp add: example_response_def)
  have k: "filter (keeps [''Men's Clothing'']) example_catalog = [backpack, tshirt]"
    by code_simp
  from other_sort_keys_keep_catalog_order
         [of "''rating''" example_response example_catalog example_runtime "[''Men's Clothing'']"]
       h k
  show ?thesis by simp
qed


section \<open>Properties of the observable store\<close>

text \<open>
  C9, as the specification states it: after two \<^verbatim>\<open>subscribe(fn)\<close> calls with the same
  function, one write calls it once. It does not: \<^verbatim>\<open>subscribe\<close> pushes without looking, and
  the write calls the renderer twice.
\<close>

theorem subscribe_twice_counterexample:
  "snd (setState [backpack]
          (subscribe RenderProducts (subscribe RenderProducts (createState []))))
     = [RenderProducts, RenderProducts] \<and>
   count_list (snd (setState [backpack]
          (subscribe RenderProducts (subscribe RenderProducts (createState []))))) RenderProducts
     \<noteq> 1"
  by (simp add: setState_def subscribe_def createState_def)

text \<open>
  C9, amended: a write calls each listener once for every time it was subscribed, in the
  order of subscription. After two \<^verbatim>\<open>subscribe(fn)\<close> calls with the same function a single
  write calls it two more times than before, and a write to the visible window of a
  program state whose store holds the renderer twice runs the renderer twice.
\<close>

theorem subscribe_twice_calls_twice:
  "snd (setState v (subscribe f (subscribe f s))) = listeners s @ [f, f] \<and>
   count_list (snd (setState v (subscribe f (subscribe f s)))) f = count_list (listeners s) f + 2 \<and>
   visibleProductsState_setState rt ps
     (w\<lparr>visibleProductsState :=
          subscribe RenderProducts (subscribe RenderProducts (createState []))\<rparr>) =
     renderProducts rt (renderProducts rt
       (w\<lparr>visibleProductsState := \<lparr>state = ps, listeners = [RenderProducts, RenderProducts]\<rparr>,
          writes := writes w @ [(VisibleProductsState, [RenderProducts, RenderProducts])]\<rparr>))"
  by (simp add: setState_def subscribe_def createState_def visibleProductsState_setState_def)

text \<open>
  The program itself subscribes the renderer once to the visible window and once to the
  loading flag, and nothing to the other two stores: after \<^verbatim>\<open>init\<close>, however its fetch ends,
  each write to one of the two renders once.
\<close>

lemma init_subscribes_renderer_once:
  "listeners (visibleProductsState (world_of (init rt result (module_state doc)))) = [RenderProducts] \<and>
   listeners (isLoading (world_of (init rt result (module_state doc)))) = [RenderProducts] \<and>
   listeners (productsState (world_of (init rt result (module_state doc)))) = [] \<and>
   listeners (filtersState (world_of (init rt result (module_state doc)))) = []"
proof (cases "fetchProducts rt result [] ''price''")
  case (Inl e)
  then show ?thesis
    by (simp add: init_def Let_def setState_frames module_state_def subscribe_def createState_def)
next
  case (Inr initialProducts)
  then show ?thesis
    by (cases initialProducts)
       (simp_all add: init_def Let_def slice_fetched_def setState_frames module_state_def
          subscribe_def createState_def)
qed


section \<open>Properties of pagination and the handlers\<close>

text \<open>
  C2. A filter change, a sort change and the initial load whose fetch brings a product
  array all complete; the product store then holds the full filtered sequence that
  \<^verbatim>\<open>fetchProducts\<close> returned for the sequence's filter set and sort key, and the visible window
  its first 10 items. From there \<open>N\<close> calls of \<^verbatim>\<open>loadMoreProducts\<close> all succeed, leave the full
  sequence as it is, and the visible window has the length \<open>min (10 + 10 * N)\<close> of the length
  of the full filtered sequence (it is the sequence's first \<open>10 + 10 * N\<close> items).
\<close>

theorem visible_window_length_after_load_more:
  assumes "body r = ProductArray data"
    and "(sequence = handleFilterChange rt (Response r) w0 \<and>
            F = map snd (filter fst (filter_checkboxes (document w0))) \<and>
            K = sort_dropdown_value (document w0)) \<or>
         (sequence = handleSortChange rt (Response r) w0 \<and>
            F = getState (filtersState w0) \<and>
            K = sort_dropdown_value (document w0)) \<or>
         (sequence = init rt (Response r) w0 \<and> F = [] \<and> K = ''price'')"
  shows "\<exists>w w' full.
           sequence = Fulfilled w \<and>
           fetchProducts rt (Response r) F K = Inr (Products full) \<and>
           mset full = mset (filter (keeps F) data) \<and>
           getState (productsState w) = Products full \<and>
           getState (visibleProductsState w) = take 10 full \<and>
           loadMoreProducts_times rt N w = Inr w' \<and>
           getState (productsState w') = Products full \<and>
           getState (visibleProductsState w') = take (10 + 10 * N) full \<and>
           length (getState (visibleProductsState w')) = min (10 + 10 * N) (length full)"
proof -
  let ?full = "ordered_by rt K (filter (keeps F) data)"
  have fetched: "fetchProducts rt (Response r) F K = Inr (Products ?full)"
    by (rule fetchProducts_success [OF assms(1)])
  have same: "mset ?full = mset (filter (keeps F) data)"
    by (rule mset_ordered_by)
  from assms(2) obtain w where finished: "sequence = Fulfilled w"
    and stored: "getState (productsState w) = Products ?full"
    and first: "getState (visibleProductsState w) = take 10 ?full"
    using handleFilterChange_success [OF assms(1), of rt w0]
      handleSortChange_success [OF assms(1), of rt w0]
      init_success [OF assms(1), of rt w0]
    by auto
  from loadMoreProducts_times_on_array [OF stored first, of rt N]
  obtain w' where more: "loadMoreProducts_times rt N w = Inr w'"
    and kept: "productsState w' = productsState w"
    and window: "getState (visibleProductsState w') = take (10 + 10 * N) ?full"
    by blast
  from kept stored have stored': "getState (productsState w') = Products ?full"
    by (simp add: getState_def)
  from window have len: "length (getState (visibleProductsState w')) =
                           min (10 + 10 * N) (length ?full)"
    by (simp add: min.commute)
  from finished fetched same stored first more stored' window len show ?thesis
    by blast
qed

theorem visible_window_length_after_load_more_witness:
  "(\<exists>w w'. init example_runtime (Response response25) (module_state example_document) = Fulfilled w \<and>
       length (getState (visibleProductsState w)) = 10 \<and>
       loadMoreProducts_times example_runtime 2 w = Inr w' \<and>
       length (getState (visibleProductsState w')) = 25) \<and>
   (\<exists>w w'. handleFilterChange example_runtime (Response example_response) loaded_world = Fulfilled w \<and>
       getState (productsState w) = Products [ring] \<and>
       loadMoreProducts_times example_runtime 1 w = Inr w' \<and>
       getState (visibleProductsState w') = [ring]) \<and>
   (\<exists>w w'. handleSortChange example_runtime (Response example_response) loaded_world = Fulfilled w \<and>
       getState (productsState w) = Products [tshirt, ring, backpack] \<and>
       loadMoreProducts_times example_runtime 1 w = Inr w' \<and>
       length (getState (visibleProductsState w')) = 3)"
proof (intro conjI)
  have b: "body response25 = ProductArray (map numbered_product [0..<25])"
    by (simp add: response25_def)
  let ?w0 = "module_state example_document"
  have s: "(init example_runtime (Response response25) ?w0 =
              handleFilterChange example_runtime (Response response25) ?w0 \<and>
            [] = map snd (filter fst (filter_checkboxes (document ?w0))) \<and>
            ''price'' = sort_dropdown_value (document ?w0)) \<or>
           (init example_runtime (Response response25) ?w0 =
              handleSortChange example_runtime (Response response25) ?w0 \<and>
            [] = getState (filtersState ?w0) \<and>
            ''price'' = sort_dropdown_value (document ?w0)) \<or>
           (init example_runtime (Response response25) ?w0 =
              init example_runtime (Response response25) ?w0 \<and> [] = [] \<and> ''price'' = ''price'')"
    by simp
  from visible_window_length_after_load_more [OF b s, of 2]
  obtain w w' full where i: "init example_runtime (Response response25) ?w0 = Fulfilled w"
    and m: "mset full = mset (filter (keeps []) (map numbered_product [0..<25]))"
    and v: "getState (visibleProductsState w) = take 10 full"
    and l: "loadMoreProducts_times example_runtime 2 w = Inr w'"
    and n: "length (getState (visibleProductsState w')) = min (10 + 10 * 2) (length full)"
    by blast
  from m have "size (mset full) = 25"
    by (simp add: keeps_def)
  then have len: "length full = 25" by simp
  from v len have "length (getState (visibleProductsState w)) = 10" by simp
  moreover from n len have "length (getState (visibleProductsState w')) = 25" by simp
  ultimately show "\<exists>w w'. init example_runtime (Response response25) ?w0 = Fulfilled w \<and>
       length (getState (visibleProductsState w)) = 10 \<and>
       loadMoreProducts_times example_runtime 2 w = Inr w' \<and>
       length (getState (visibleProductsState w')) = 25"
    using i l by blast
next
  have b: "body example_response = ProductArray example_catalog"
    by (simp add: example_response_def)
  have s: "(handleFilterChange example_runtime (Response example_response) loaded_world =
              handleFilterChange example_runtime (Response example_response) loaded_world \<and>
            [''jewelery''] = map snd (filter fst (filter_checkboxes (document loaded_world))) \<and>
            ''price'' = sort_dropdown_value (document loaded_world)) \<or>
           (handleFilterChange example_runtime (Response example_response) loaded_world =
              handleSortChange example_runtime (Response example_response) loaded_world \<and>
            [''jewelery''] = getState (filtersState loaded_world) \<and>
            ''price'' = sort_dropdown_value (document loaded_world)) \<or>
           (handleFilterChange example_runtime (Response example_response) loaded_world =
              init example_runtime (Response example_response) loaded_world \<and>
            [''jewelery''] = [] \<and> ''price'' = ''price'')"
    by (simp add: loaded_world_eq)
  from visible_window_length_after_load_more [OF b s, of 1]
  obtain w w' full
    where i: "handleFilterChange example_runtime (Response example_response) loaded_world = Fulfilled w"
    and f: "fetchProducts example_runtime (Response example_response) [''jewelery''] ''price''
              = Inr (Products full)"
    and p: "getState (productsState w) = Products full"
    and l: "loadMoreProducts_times example_runtime 1 w = Inr w'"
    and v: "getState (visibleProductsState w') = take (10 + 10 * 1) full"
    by blast
  from f have full: "full = [ring]"
    by (simp add: fetch_example_jewelery)
  from v full have "getState (visibleProductsState w') = [ring]" by simp
  with i p l full
  show "\<exists>w w'. handleFilterChange example_runtime (Response example_response) loaded_world
                  = Fulfilled w \<and>
       getState (productsState w) = Products [ring] \<and>
       loadMoreProducts_times example_runtime 1 w = Inr w' \<and>
       getState (visibleProductsState w') = [ring]"
    by blast
next
  have b: "body example_response = ProductArray example_catalog"
    by (simp add: example_response_def)
  have s: "(handleSortChange example_runtime (Response example_response) loaded_world =
              handleFilterChange example_runtime (Response example_response) loaded_world \<and>
            [] = map snd (filter fst (filter_checkboxes (document loaded_world))) \<and>
            ''price'' = sort_dropdown_value (document loaded_world)) \<or>
           (handleSortChange example_runtime (Response example_response) loaded_world =
              handleSortChange example_runtime (Response example_response) loaded_world \<and>
            [] = getState (filtersState loaded_world) \<and>
            ''price'' = sort_dropdown_value (document loaded_world)) \<or>
           (handleSortChange example_runtime (Response example_response) loaded_world =
              init example_runtime (Response example_response) loaded_world \<and>
            [] = [] \<and> ''price'' = ''price'')"
    by (simp add: loaded_world_eq getState_def)
  from visible_window_length_after_load_more [OF b s, of 1]
  obtain w w' full
    where i: "handleSortChange example_runtime (Response example_response) loaded_world = Fulfilled w"
    and f: "fetchProducts example_runtime (Response example_response) [] ''price''
              = Inr (Products full)"
    and p: "getState (productsState w) = Products full"
    and l: "loadMoreProducts_times example_runtime 1 w = Inr w'"
    and n: "length (getState (visibleProductsState w')) = min (10 + 10 * 1) (length full)"
    by blast
  from f have full: "full = [tshirt, ring, backpack]"
    by (simp add: fetch_example_by_price)
  from n full have "length (getState (visibleProductsState w')) = 3" by simp
  with i p l full
  show "\<exists>w w'. handleSortChange example_runtime (Response example_response) loaded_world
                  = Fulfilled w \<and>
       getState (productsState w) = Products [tshirt, ring, backpack] \<and>
       loadMoreProducts_times example_runtime 1 w = Inr w' \<and>
       length (getState (visibleProductsState w')) = 3"
    by blast
qed



text \<open>
  The one way a body that is not an array gets past \<^verbatim>\<open>fetchProducts\<close>: no filter is selected
  and the sort key is neither \<open>''price''\<close> nor \<open>''name''\<close>. The sort change then stores that
  body and throws at \<^verbatim>\<open>.slice\<close>; the visible window is untouched, and a later click on the
  load-more button throws as well.
\<close>

lemma non_array_body_reaches_the_store:
  assumes "body r = NonArray" and "getState (filtersState w0) = []"
    and "sort_dropdown_value (document w0) \<noteq> ''price''"
    and "sort_dropdown_value (document w0) \<noteq> ''name''"
  shows "\<exists>w. handleSortChange rt (Response r) w0 = Rejected TypeError w \<and>
             getState (productsState w) = NonArrayBody \<and>
             visibleProductsState w = visibleProductsState w0 \<and>
             isLoading w = isLoading w0 \<and>
             loadMoreProducts rt w = Inl TypeError"
  using assms
  by (simp add: handleSortChange_def fetchProducts_def Let_def slice_fetched_def setState_frames
        getState_def loadMoreProducts_def)

text \<open>
  C8. A sort-change sequence, completed or failed, never writes the loading flag: the
  store is the one it was, and none of the writes the sequence adds to the history is a
  write to it.
\<close>

theorem handleSortChange_never_writes_isLoading:
  "isLoading (world_of (handleSortChange rt result w0)) = isLoading w0 \<and>
   (\<exists>new. writes (world_of (handleSortChange rt result w0)) = writes w0 @ new \<and>
          list_all (\<lambda>write. fst write \<noteq> IsLoading) new)"
proof (cases "fetchProducts rt result (getState (filtersState w0))
                (sort_dropdown_value (document w0))")
  case (Inl e)
  then show ?thesis
    by (simp add: handleSortChange_def Let_def)
next
  case (Inr updatedProducts)
  then show ?thesis
    by (cases updatedProducts)
       (simp_all add: handleSortChange_def Let_def slice_fetched_def set_load_more_display_def
          setState_frames)
qed

theorem handleSortChange_never_writes_isLoading_witness:
  "isLoading (world_of (handleSortChange example_runtime (Response example_response) loaded_world))
     = \<lparr>state = False, listeners = [RenderProducts]\<rparr> \<and>
   (\<exists>new. writes (world_of (handleSortChange example_runtime (Response example_response)
                   loaded_world)) = writes loaded_world @ new \<and>
          list_all (\<lambda>write. fst write \<noteq> IsLoading) new)"
proof -
  have s: "isLoading loaded_world = \<lparr>state = False, listeners = [RenderProducts]\<rparr>"
    by (simp add: loaded_world_eq)
  from handleSortChange_never_writes_isLoading
         [of example_runtime "Response example_response" loaded_world]
  show ?thesis unfolding s by blast
qed

text \<open>
  C3, evaluated where it fails. The page is loaded with three products, all visible; the
  user ticks the category \<open>jewelery\<close>, and the fetch of the filter change brings the same
  catalog. After line 121 the product store holds the one ring; line 122 then writes the
  loading flag, whose subscriber \<^verbatim>\<open>renderProducts\<close> runs while the visible window still holds
  the three products of the previous sequence. At that notification the window is no
  prefix of the stored sequence and is longer than it, and the renderer draws the three
  stale cards and the counter \<^verbatim>\<open>3 Results\<close>. Only line 123 brings the window back to a prefix.
\<close>

theorem filter_change_renders_stale_window:
  "(let w2 = filtersState_setState example_runtime [''jewelery'']
               (isLoading_setState example_runtime True loaded_world);
        w4 = isLoading_setState example_runtime False
               (productsState_setState example_runtime (Products [ring]) w2)
    in handleFilterChange example_runtime (Response example_response) loaded_world =
         Fulfilled (set_load_more_display ''block''
                      (visibleProductsState_setState example_runtime [ring] w4)) \<and>
       writes w4 = writes loaded_world @
         [(IsLoading, [RenderProducts]), (FiltersState, []), (ProductsState, []),
          (IsLoading, [RenderProducts])] \<and>
       getState (productsState w4) = Products [ring] \<and>
       getState (visibleProductsState w4) = [tshirt, ring, backpack] \<and>
       \<not> prefix (getState (visibleProductsState w4)) [ring] \<and>
       length [ring] < length (getState (visibleProductsState w4)) \<and>
       results_count_textContent (document w4) = ''3 Results'' \<and>
       products_innerHTML (document w4) =
         concat (map (product_card example_runtime) [tshirt, ring, backpack]))"
  by (simp add: loaded_world_eq handleFilterChange_def fetch_example_jewelery run_defs
        decimal.simps digit_nth tshirt_def ring_def)

text \<open>
  What does hold of the window: it is a prefix of the stored sequence whenever one of the
  three sequences has completed, and \<^verbatim>\<open>loadMoreProducts\<close> keeps it one.
\<close>

lemma window_is_prefix_when_sequence_ends:
  assumes "handleFilterChange rt result w0 = Fulfilled w \<or>
           handleSortChange rt result w0 = Fulfilled w \<or>
           init rt result w0 = Fulfilled w"
  shows "\<exists>full. getState (productsState w) = Products full \<and>
                prefix (getState (visibleProductsState w)) full"
proof -
  from assms obtain full where "getState (productsState w) = Products full"
    and "getState (visibleProductsState w) = take 10 full"
    using handleFilterChange_fulfilled handleSortChange_fulfilled init_fulfilled by blast
  then show ?thesis by (auto simp: take_is_prefix)
qed

lemma loadMoreProducts_keeps_prefix:
  assumes "getState (productsState w) = Products full"
    and "prefix (getState (visibleProductsState w)) full"
  shows "\<exists>w'. loadMoreProducts rt w = Inr w' \<and>
              getState (productsState w') = Products full \<and>
              prefix (getState (visibleProductsState w')) full"
proof -
  from assms(2) obtain rest where
    all: "full = getState (visibleProductsState w) @ rest"
    by (auto simp: prefix_def)
  have next_page: "slice (length (getState (visibleProductsState w)))
          (length (getState (visibleProductsState w)) + 10) full = take 10 rest"
    by (subst all) (simp add: slice_def)
  from loadMoreProducts_on_array [OF assms(1), of rt]
  obtain w' where step: "loadMoreProducts rt w = Inr w'"
    and p: "productsState w' = productsState w"
    and v: "getState (visibleProductsState w') =
              getState (visibleProductsState w) @
              slice (length (getState (visibleProductsState w)))
                    (length (getState (visibleProductsState w)) + 10) full"
    by blast
  from v next_page have "getState (visibleProductsState w') =
                           getState (visibleProductsState w) @ take 10 rest"
    by simp
  then have "prefix (getState (visibleProductsState w')) full"
    by (subst all) (simp add: take_is_prefix)
  moreover from p assms(1) have "getState (productsState w') = Products full"
    by (simp add: getState_def)
  ultimately show ?thesis using step by blast
qed


section \<open>Properties of the renderer\<close>

lemma hundredths_nearest: "\<bar>of_nat (hundredths x) / 100 - \<bar>x\<bar>\<bar> \<le> 1 / 200"
  unfolding hundredths_def by (rule nearest_cent) simp

lemma toFixed_2_hundredths:
  "\<bar>x\<bar> < 10 ^ 21 \<Longrightarrow>
   toFixed rt 2 x =
     (if x < 0 then ''-'' else []) @ decimal (hundredths x div 100) @ ''.'' @
     [digit (hundredths x div 10 mod 10), digit (hundredths x mod 10)]"
  unfolding hundredths_def by (rule toFixed_2_signed)

lemma toFixed_from_10_21:
  "10 ^ 21 \<le> \<bar>x\<bar> \<Longrightarrow>
   toFixed rt f x = (if x < 0 then ''-'' else []) @ numberToString rt \<bar>x\<bar>"
  by (simp add: toFixed_def Let_def abs_if)

text \<open>
  C6, as the specification states it: every card shows the price with two decimal places.
  It does not for a price of \<open>10\<^sup>2\<^sup>1\<close> or more, where \<^verbatim>\<open>toFixed\<close> returns the number's plain
  string form: a catalog with one product priced \<open>10\<^sup>2\<^sup>1\<close> is drawn with the price text
  \<^verbatim>\<open>1e+21\<close>.
\<close>

theorem huge_price_not_two_decimals_counterexample:
  "price yacht = 10 ^ 21 \<and>
   getState (visibleProductsState yacht_world) = [yacht] \<and>
   getState (isLoading yacht_world) = False \<and>
   toFixed example_runtime 2 (price yacht) = ''1e+21'' \<and>
   products_innerHTML (document (renderProducts example_runtime yacht_world)) =
     card_template ''img/9.jpg'' ''Yacht'' ''1e+21''"
proof -
  have "body yacht_response = ProductArray [yacht]"
    by (simp add: yacht_response_def)
  then have f: "fetchProducts example_runtime (Response yacht_response) [] ''price''
                  = Inr (Products [yacht])"
    by (simp add: fetchProducts_success ordered_by_def keeps_def)
  have t: "toFixed example_runtime 2 (10 ^ 21) = ''1e+21''"
    by (simp add: toFixed_def example_runtime_def)
  have v: "getState (visibleProductsState yacht_world) = [yacht]"
    and l: "getState (isLoading yacht_world) = False"
    by (simp_all add: yacht_world_def init_def f Let_def setState_frames getState_def
          slice_from_zero slice_fetched_def)
  have p: "price yacht = 10 ^ 21" "image_url yacht = ''img/9.jpg''" "title yacht = ''Yacht''"
    by (simp_all add: yacht_def)
  from v l t p show ?thesis
    by (simp add: renderProducts_document product_card_def)
qed

text \<open>
  C6, amended. \<^verbatim>\<open>renderProducts\<close> always sets the results counter to the length of the
  visible window. With the loading flag true it shows \<^verbatim>\<open>Loading...\<close> and draws no product;
  otherwise the container holds one card per visible product, in order. Every card contains
  the product's image reference, its title, the wishlist icon and the text of
  \<^verbatim>\<open>price.toFixed(2)\<close>; for a price of magnitude below \<open>10\<^sup>2\<^sup>1\<close> that text is the sign, the
  digits of the whole part, a point and exactly two digits, of the hundredth nearest to the
  price.
\<close>

theorem renderProducts_contract:
  "results_count_textContent (document (renderProducts rt w)) =
     decimal (length (getState (visibleProductsState w))) @ '' Results'' \<and>
   (getState (isLoading w) \<longrightarrow>
      products_innerHTML (document (renderProducts rt w)) = ''Loading...'') \<and>
   (\<not> getState (isLoading w) \<longrightarrow>
      products_innerHTML (document (renderProducts rt w)) =
        concat (map (product_card rt) (getState (visibleProductsState w)))) \<and>
   only_redraws w (renderProducts rt w) \<and>
   (\<forall>p. sublist (image_url p) (product_card rt p) \<and>
        sublist (title p) (product_card rt p) \<and>
        sublist wishlist_icon (product_card rt p) \<and>
        sublist (toFixed rt 2 (price p)) (product_card rt p)) \<and>
   (\<forall>p. \<bar>price p\<bar> < 10 ^ 21 \<longrightarrow>
      \<bar>of_nat (hundredths (price p)) / 100 - \<bar>price p\<bar>\<bar> \<le> 1 / 200 \<and>
      toFixed rt 2 (price p) =
        (if price p < 0 then ''-'' else []) @ decimal (hundredths (price p) div 100) @ ''.'' @
        [digit (hundredths (price p) div 10 mod 10), digit (hundredths (price p) mod 10)])"
proof -
  have counter: "results_count_textContent (document (renderProducts rt w)) =
      decimal (length (getState (visibleProductsState w))) @ '' Results''"
    by (simp add: renderProducts_document)
  have loading: "getState (isLoading w) \<longrightarrow>
      products_innerHTML (document (renderProducts rt w)) = ''Loading...''"
    by (simp add: renderProducts_document)
  have cards: "\<not> getState (isLoading w) \<longrightarrow>
      products_innerHTML (document (renderProducts rt w)) =
        concat (map (product_card rt) (getState (visibleProductsState w)))"
    by (simp add: renderProducts_document)
  have frame: "only_redraws w (renderProducts rt w)"
    by (rule renderProducts_only_redraws)
  have shows_fields: "\<forall>p. sublist (image_url p) (product_card rt p) \<and>
        sublist (title p) (product_card rt p) \<and>
        sublist wishlist_icon (product_card rt p) \<and>
        sublist (toFixed rt 2 (price p)) (product_card rt p)"
    by (simp add: product_card_def sublist_card_template)
  have two_decimals: "\<forall>p. \<bar>price p\<bar> < 10 ^ 21 \<longrightarrow>
      \<bar>of_nat (hundredths (price p)) / 100 - \<bar>price p\<bar>\<bar> \<le> 1 / 200 \<and>
      toFixed rt 2 (price p) =
        (if price p < 0 then ''-'' else []) @ decimal (hundredths (price p) div 100) @ ''.'' @
        [digit (hundredths (price p) div 10 mod 10), digit (hundredths (price p) mod 10)]"
    by (intro allI impI conjI hundredths_nearest toFixed_2_hundredths)
  show ?thesis
    by (intro conjI) (rule counter loading cards frame shows_fields two_decimals)+
qed

theorem renderProducts_contract_witness:
  "getState (isLoading loaded_world) = False \<and>
   results_count_textContent (document (renderProducts example_runtime loaded_world)) = ''3 Results'' \<and>
   products_innerHTML (document (renderProducts example_runtime loaded_world)) =
     concat (map (product_card example_runtime) [tshirt, ring, backpack]) \<and>
   \<bar>price backpack\<bar> < 10 ^ 21 \<and>
   toFixed example_runtime 2 (price backpack) = ''109.95'' \<and>
   getState (isLoading stuck_world) = True \<and>
   results_count_textContent (document (renderProducts example_runtime stuck_world)) = ''0 Results'' \<and>
   products_innerHTML (document (renderProducts example_runtime stuck_world)) = ''Loading...''"
proof -
  have s: "getState (isLoading loaded_world) = False"
    "getState (visibleProductsState loaded_world) = [tshirt, ring, backpack]"
    by (simp_all add: loaded_world_eq getState_def)
  have k: "getState (isLoading stuck_world) = True"
    "getState (visibleProductsState stuck_world) = []"
    by (simp_all add: stuck_world_def init_def fetchProducts_def module_state_def Let_def
          setState_frames getState_def subscribe_def createState_def)
  have p: "price backpack = 10995 / 100"
    by (simp add: backpack_def)
  have d: "decimal 0 = ''0''" "decimal (Suc (Suc (Suc 0))) = ''3''" "decimal 109 = ''109''"
    by (simp_all add: decimal.simps digit_nth)
  note c = renderProducts_contract [of example_runtime loaded_world]
  note counter = c [THEN conjunct1]
  note cards = c [THEN conjunct2, THEN conjunct2, THEN conjunct1, rule_format]
  note two = c [THEN conjunct2, THEN conjunct2, THEN conjunct2, THEN conjunct2, THEN conjunct2,
                rule_format, of backpack, THEN conjunct2]
  note c' = renderProducts_contract [of example_runtime stuck_world]
  note counter' = c' [THEN conjunct1]
  note loading' = c' [THEN conjunct2, THEN conjunct1, rule_format]
  have small: "\<bar>price backpack\<bar> < 10 ^ 21"
    by (simp add: p)
  have "results_count_textContent (document (renderProducts example_runtime loaded_world)) =
          ''3 Results''"
    using counter by (simp add: s d)
  moreover have "products_innerHTML (document (renderProducts example_runtime loaded_world)) =
     concat (map (product_card example_runtime) [tshirt, ring, backpack])"
    using cards s by simp
  moreover have "toFixed example_runtime 2 (price backpack) = ''109.95''"
    using two [OF small] by (simp add: p d hundredths_def floor_numeral_quotient digit_chars)
  moreover have "results_count_textContent (document (renderProducts example_runtime stuck_world)) =
          ''0 Results''"
    using counter' by (simp add: k d)
  moreover have "products_innerHTML (document (renderProducts example_runtime stuck_world)) =
          ''Loading...''"
    using loading' k by simp
  ultimately show ?thesis
    using s k small by blast
qed

end
